theory Spec2Isabelle
  imports Main "HOL-Library.Word" "HOL-Library.AList" "HOL-Library.Sublist"
begin

section \<open>Shared data: addresses, instants, Go maps\<close>

text \<open>
  \<^verbatim>\<open>net.TCPAddr\<close> is a struct of an IP (a byte slice), a port and a zone. Its
  \<^verbatim>\<open>String()\<close> method belongs to the Go library; every function below that calls it
  takes it as the parameter \<open>str\<close>.
\<close>

type_synonym byte = "8 word"

record TCPAddr =
  IP :: "byte list"
  Port :: int
  Zone :: string

text \<open>
  A \<^verbatim>\<open>time.Time\<close> is an instant, kept as nanoseconds since the Unix epoch (what
  \<^verbatim>\<open>UnixNano()\<close> reads). \<^verbatim>\<open>Format(time.RFC3339Nano)\<close> is library code and is the
  parameter \<open>fmt\<close> of the functions that call it.
\<close>

type_synonym Time = int

text \<open>
  A Go \<^verbatim>\<open>map[string]T\<close> is an association list with one pair per key: lookup is
  \<open>map_of\<close>, the store \<^verbatim>\<open>m[k] = v\<close> is \<open>AList.update k v\<close>, and \<^verbatim>\<open>len(m)\<close> is the
  length of the list. The order of the list stands for the order in which the
  runtime happens to range over the map.
\<close>

section \<open>util.go: MinUint32\<close>

definition MinUint32 :: "32 word \<Rightarrow> 32 word \<Rightarrow> 32 word" where
  "MinUint32 x y = (if x > y then x else y)"

section \<open>The repository\<close>

record node =
  addr :: TCPAddr
  src :: TCPAddr
  attempts :: "32 word"
  lastAttempt :: Time
  lastSuccess :: Time
  lastConnect :: Time

type_synonym nodeIndex = "(string \<times> node) list"

text \<open>\<^verbatim>\<open>newNode\<close>: every field but the two addresses has Go's zero value.\<close>

definition newNode :: "TCPAddr \<Rightarrow> TCPAddr \<Rightarrow> node" where
  "newNode a s = \<lparr>addr = a, src = s, attempts = 0,
     lastAttempt = 0, lastSuccess = 0, lastConnect = 0\<rparr>"

subsection \<open>Get\<close>

text \<open>
  \<^verbatim>\<open>Get\<close> draws \<^verbatim>\<open>rand.Int()\<close>, a non-negative int (the argument \<open>r\<close>), reduces it
  modulo the size of the index and ranges over the map, counting, until the counter
  reaches the drawn position. The two \<^verbatim>\<open>errors.New\<close> values are kept by their text.
\<close>

fun Get_range :: "nodeIndex \<Rightarrow> nat \<Rightarrow> nat \<Rightarrow> TCPAddr option" where
  "Get_range [] i index = None"
| "Get_range ((k, n) # rest) i index =
     (if i = index then Some (addr n) else Get_range rest (i + 1) index)"

definition Get :: "nodeIndex \<Rightarrow> nat \<Rightarrow> string + TCPAddr" where
  "Get nodeIndex r =
     (if length nodeIndex = 0 then Inl ''No nodes in repository''
      else (case Get_range nodeIndex 0 (r mod length nodeIndex) of
              Some a \<Rightarrow> Inr a
            | None \<Rightarrow> Inl ''No qualified node found''))"

subsection \<open>Update and the node handler\<close>

text \<open>
  The repository as far as \<^verbatim>\<open>Update\<close> and \<^verbatim>\<open>handleNodes\<close> touch it: the index and
  the buffered channel \<^verbatim>\<open>nodeQ\<close> (oldest element first). A send on a full channel
  blocks; \<^verbatim>\<open>Update\<close> then does not return, which is the result \<open>None\<close>. The capacity
  \<^verbatim>\<open>bufferRepoNode\<close> is a constant that the sources do not show, hence a parameter.
\<close>

record repository =
  nodeIndex :: nodeIndex
  nodeQ :: "node list"

definition Update ::
  "(TCPAddr \<Rightarrow> string) \<Rightarrow> nat \<Rightarrow> repository \<Rightarrow> TCPAddr \<Rightarrow> TCPAddr \<Rightarrow> repository option" where
  "Update str bufferRepoNode repo a s =
     (case map_of (nodeIndex repo) (str a) of
        Some n \<Rightarrow> Some (repo\<lparr>nodeIndex := AList.update (str a) (n\<lparr>src := s\<rparr>) (nodeIndex repo)\<rparr>)
      | None \<Rightarrow>
          (if length (nodeQ repo) < bufferRepoNode
           then Some (repo\<lparr>nodeQ := nodeQ repo @ [newNode a s]\<rparr>)
           else None))"

text \<open>
  \<^verbatim>\<open>handleNodes\<close> is a loop around a \<^verbatim>\<open>select\<close>. What the loop does is fixed by the
  sequence of cases the \<^verbatim>\<open>select\<close> takes: a value received on \<^verbatim>\<open>sigNode\<close>, the
  closed \<^verbatim>\<open>sigNode\<close>, or a node received from \<^verbatim>\<open>nodeQ\<close>. The handler ends by the
  \<^verbatim>\<open>break\<close> of the loop, by one of the two \<^verbatim>\<open>return\<close>s of the node case, or it is
  still in the loop when the given cases are used up. The limit \<^verbatim>\<open>maxNodeCount\<close> is a
  constant that the sources do not show, hence a parameter.
\<close>

datatype node_event = SigValue | SigClosed | NodeRecv node

datatype handler_exit = InLoop | Broke | Returned

fun handleNodes ::
  "(TCPAddr \<Rightarrow> string) \<Rightarrow> nat \<Rightarrow> nodeIndex \<Rightarrow> node_event list \<Rightarrow> nodeIndex \<times> handler_exit" where
  "handleNodes str maxNodeCount idx [] = (idx, InLoop)"
| "handleNodes str maxNodeCount idx (SigValue # es) = handleNodes str maxNodeCount idx es"
| "handleNodes str maxNodeCount idx (SigClosed # es) = (idx, Broke)"
| "handleNodes str maxNodeCount idx (NodeRecv n # es) =
     (if map_of idx (str (addr n)) \<noteq> None then (idx, Returned)
      else if length idx \<ge> maxNodeCount then (idx, Returned)
      else handleNodes str maxNodeCount (AList.update (str (addr n)) n idx) es)"

subsection \<open>The gob form of a node and of the index\<close>

text \<open>
  \<^verbatim>\<open>GobEncode\<close> encodes the six fields of a node, in the order of the struct, into a
  buffer, and \<^verbatim>\<open>GobDecode\<close> decodes six values in the same order into the fields of
  its receiver, returning at the first value that does not decode. The buffer is
  the list of the encoded values, each kept with its type: the bytes that \<^verbatim>\<open>gob\<close>
  makes of a value are library code. Encoding into a buffer fails only for a nil
  address, and a node of the model has both addresses, so \<^verbatim>\<open>GobEncode\<close> has no
  error here.
\<close>

datatype gob_value = GAddr TCPAddr | GUint32 "32 word" | GTime Time

datatype gob_error = EOF | UnexpectedEOF | TypeMismatch

definition node_GobEncode :: "node \<Rightarrow> gob_value list" where
  "node_GobEncode n =
     [GAddr (addr n), GAddr (src n), GUint32 (attempts n),
      GTime (lastAttempt n), GTime (lastSuccess n), GTime (lastConnect n)]"

fun Decode_addr :: "gob_value list \<Rightarrow> gob_error + TCPAddr \<times> gob_value list" where
  "Decode_addr [] = Inl EOF"
| "Decode_addr (GAddr a # rest) = Inr (a, rest)"
| "Decode_addr (v # rest) = Inl TypeMismatch"

fun Decode_uint32 :: "gob_value list \<Rightarrow> gob_error + 32 word \<times> gob_value list" where
  "Decode_uint32 [] = Inl EOF"
| "Decode_uint32 (GUint32 w # rest) = Inr (w, rest)"
| "Decode_uint32 (v # rest) = Inl TypeMismatch"

fun Decode_time :: "gob_value list \<Rightarrow> gob_error + Time \<times> gob_value list" where
  "Decode_time [] = Inl EOF"
| "Decode_time (GTime t # rest) = Inr (t, rest)"
| "Decode_time (v # rest) = Inl TypeMismatch"

definition node_GobDecode :: "gob_value list \<Rightarrow> node \<Rightarrow> gob_error + node" where
  "node_GobDecode buf n =
     (case Decode_addr buf of Inl err \<Rightarrow> Inl err | Inr (a, b1) \<Rightarrow>
     (case Decode_addr b1 of Inl err \<Rightarrow> Inl err | Inr (s, b2) \<Rightarrow>
     (case Decode_uint32 b2 of Inl err \<Rightarrow> Inl err | Inr (c, b3) \<Rightarrow>
     (case Decode_time b3 of Inl err \<Rightarrow> Inl err | Inr (t1, b4) \<Rightarrow>
     (case Decode_time b4 of Inl err \<Rightarrow> Inl err | Inr (t2, b5) \<Rightarrow>
     (case Decode_time b5 of Inl err \<Rightarrow> Inl err | Inr (t3, b6) \<Rightarrow>
        Inr (n\<lparr>addr := a, src := s, attempts := c,
                lastAttempt := t1, lastSuccess := t2, lastConnect := t3\<rparr>)))))))"

text \<open>
  The encoder of \<^verbatim>\<open>gob\<close> writes a map as a stream: the description of the type,
  the number of pairs, and then for each pair the key and the element, which for a
  node is the buffer that \<^verbatim>\<open>GobEncode\<close> returned. A file holds such a stream as far
  as it was written.
\<close>

datatype gob_item = TypeDef | Count nat | Key string | Elem "gob_value list"

definition gob_Encode :: "nodeIndex \<Rightarrow> gob_item list" where
  "gob_Encode idx =
     TypeDef # Count (length idx) # concat (map (\<lambda>(k, n). [Key k, Elem (node_GobEncode n)]) idx)"

text \<open>
  The decoder reads the whole of the map from the stream before it decodes any of
  it, and fails on a stream that ends before the map or within it. It then decodes pair by pair, the
  element by \<^verbatim>\<open>GobDecode\<close> on a fresh node, and stores each pair into the map it was
  given, which keeps its other entries. When an element does not decode, the pairs
  before it stay stored. The result is the error, if any, and the map as the
  decoder leaves it.
\<close>

definition fresh_node :: node where
  "fresh_node = newNode \<lparr>IP = [], Port = 0, Zone = []\<rparr> \<lparr>IP = [], Port = 0, Zone = []\<rparr>"

fun decode_pairs :: "gob_item list \<Rightarrow> nodeIndex \<Rightarrow> gob_error option \<times> nodeIndex" where
  "decode_pairs [] idx = (None, idx)"
| "decode_pairs (Key k # Elem buf # rest) idx =
     (case node_GobDecode buf fresh_node of
        Inl err \<Rightarrow> (Some err, idx)
      | Inr n \<Rightarrow> decode_pairs rest (AList.update k n idx))"
| "decode_pairs (v # rest) idx = (Some TypeMismatch, idx)"

fun gob_Decode :: "gob_item list \<Rightarrow> nodeIndex \<Rightarrow> gob_error option \<times> nodeIndex" where
  "gob_Decode [] idx = (Some EOF, idx)"
| "gob_Decode (TypeDef # Count c # rest) idx =
     (if length rest < 2 * c then (Some UnexpectedEOF, idx)
      else decode_pairs (take (2 * c) rest) idx)"
| "gob_Decode [TypeDef] idx = (Some EOF, idx)"
| "gob_Decode (v # rest) idx = (Some TypeMismatch, idx)"

subsection \<open>save and restore\<close>

text \<open>
  The disk maps the name of a file to the stream the file holds; a file that
  \<^verbatim>\<open>os.Create\<close> has just created or truncated holds the empty stream.
\<close>

type_synonym disk = "string \<rightharpoonup> gob_item list"

datatype io_result = Ok | Fail

definition os_Create :: "string \<Rightarrow> disk \<Rightarrow> disk" where
  "os_Create name d = d(name \<mapsto> [])"

text \<open>
  \<^verbatim>\<open>save\<close> calls \<^verbatim>\<open>os.Create("nodes.dat")\<close> and then encodes the index into the file
  it got, so that the file holds longer and longer beginnings of the stream.
  \<open>save_states\<close> lists the states the disk goes through, the first being the disk
  before the call. \<open>c\<close> says whether the file can be created, and \<open>e\<close> is \<open>None\<close>
  when the encoder writes the whole stream and \<open>Some k\<close> when it fails after \<open>k\<close>
  items; on an error \<^verbatim>\<open>save\<close> logs and returns. \<^verbatim>\<open>save\<close> leaves the last of these
  states; a process that dies during \<^verbatim>\<open>save\<close> leaves one of them.
\<close>

definition save_states :: "io_result \<Rightarrow> nat option \<Rightarrow> nodeIndex \<Rightarrow> disk \<Rightarrow> disk list" where
  "save_states c e idx d =
     (if c = Fail then [d]
      else d # map (\<lambda>written. d(''nodes.dat'' \<mapsto> written))
                 (prefixes (case e of None \<Rightarrow> gob_Encode idx
                                    | Some k \<Rightarrow> take k (gob_Encode idx))))"

definition save :: "io_result \<Rightarrow> nat option \<Rightarrow> nodeIndex \<Rightarrow> disk \<Rightarrow> disk" where
  "save c e idx d = last (save_states c e idx d)"

text \<open>
  \<^verbatim>\<open>restore\<close> opens \<^verbatim>\<open>nodes.dat\<close> and decodes it into \<^verbatim>\<open>repo.nodeIndex\<close>. On an error
  of \<^verbatim>\<open>os.Open\<close> or of the decoder \<^verbatim>\<open>restore\<close> logs and returns; the index is then
  as the decoder left it.
\<close>

definition restore :: "disk \<Rightarrow> nodeIndex \<Rightarrow> nodeIndex" where
  "restore d idx =
     (case d ''nodes.dat'' of
        None \<Rightarrow> idx
      | Some stream \<Rightarrow> snd (gob_Decode stream idx))"

section \<open>The manager: new peers\<close>

text \<open>
  Modelled from the spec: the struct \<^verbatim>\<open>peer\<close> is not among the sources, only the
  interface \<^verbatim>\<open>Peer\<close> with its methods. The spec says that \<^verbatim>\<open>String()\<close> returns the
  canonical key of the remote address; the model of a peer is that key, and a call
  of \<^verbatim>\<open>String()\<close> reads it.
\<close>

record peer =
  peer_String :: string

text \<open>
  \<^verbatim>\<open>processNewPeer\<close> changes the peer index of the manager and may start the peer
  it is given. The model returns the index after the call together with the calls
  of \<^verbatim>\<open>Start\<close> and of \<^verbatim>\<open>Stop\<close> that were made on the peer, in order. The calls of
  \<^verbatim>\<open>String()\<close>, which the function makes on every path, are not in that list, and
  log lines are left out. The limit \<^verbatim>\<open>maxPeerCount\<close> is a constant that the sources
  do not show, hence a parameter.
\<close>

datatype peer_method = Peer_Start | Peer_Stop

type_synonym peerIndex = "(string \<times> peer) list"

definition processNewPeer :: "nat \<Rightarrow> peerIndex \<Rightarrow> peer \<Rightarrow> peerIndex \<times> peer_method list" where
  "processNewPeer maxPeerCount peerIndex p =
     (if map_of peerIndex (peer_String p) \<noteq> None then (peerIndex, [])
      else if length peerIndex \<ge> maxPeerCount then (peerIndex, [])
      else (AList.update (peer_String p) p peerIndex, [Peer_Start]))"

section \<open>Records and their text and binary forms\<close>

text \<open>
  \<^verbatim>\<open>VerAckRecord\<close> embeds \<^verbatim>\<open>Record\<close>, whose declaration is not among the sources;
  \<^verbatim>\<open>NewVerAckRecord\<close> shows its fields. \<^verbatim>\<open>AddressRecord\<close> declares the same four
  fields and the slice of entries. The type of an entry, \<^verbatim>\<open>EntryRecord\<close>, is not
  among the sources either: it is the type parameter \<open>'e\<close>, and its methods
  \<^verbatim>\<open>String\<close> and \<^verbatim>\<open>Bytes\<close> are parameters of the functions that call them, as is
  the constant \<^verbatim>\<open>Delimiter1\<close>. \<^verbatim>\<open>ParseCommand\<close> is not among the sources; the spec
  gives its result as a command code of one byte, so it is a parameter that returns
  a byte.
\<close>

record Record =
  stamp :: Time
  ra :: TCPAddr
  la :: TCPAddr
  cmd :: string

record 'e AddressRecord = Record +
  addrs :: "'e list"

text \<open>A \<^verbatim>\<open>bytes.Buffer\<close> is the list of what was written to it so far.\<close>

definition WriteString :: "string \<Rightarrow> string \<Rightarrow> string" where
  "WriteString s buf = buf @ s"


text \<open>\<^verbatim>\<open>strconv.FormatInt(n, 10)\<close>.\<close>

fun FormatUint :: "nat \<Rightarrow> string" where
  "FormatUint n =
     (if n < 10 then [char_of (48 + n)]
      else FormatUint (n div 10) @ [char_of (48 + n mod 10)])"

definition FormatInt :: "int \<Rightarrow> string" where
  "FormatInt n = (if n < 0 then ''-'' @ FormatUint (nat (- n)) else FormatUint (nat n))"

definition newline :: string where
  "newline = [CHR 0x0A]"

definition AddressRecord_String ::
  "(Time \<Rightarrow> string) \<Rightarrow> (TCPAddr \<Rightarrow> string) \<Rightarrow> ('e \<Rightarrow> string) \<Rightarrow> 'e AddressRecord \<Rightarrow> string" where
  "AddressRecord_String fmt str entry_String ar =
     fold (\<lambda>a buf. WriteString (entry_String a) (WriteString '' '' (WriteString newline buf)))
       (addrs ar)
       (WriteString (FormatInt (int (length (addrs ar))))
       (WriteString '' ''
       (WriteString (str (la ar))
       (WriteString '' ''
       (WriteString (str (ra ar))
       (WriteString '' ''
       (WriteString (fmt (stamp ar))
       (WriteString '' ''
       (WriteString (cmd ar) [])))))))))"

definition VerAckRecord_String ::
  "(Time \<Rightarrow> string) \<Rightarrow> (TCPAddr \<Rightarrow> string) \<Rightarrow> string \<Rightarrow> Record \<Rightarrow> string" where
  "VerAckRecord_String fmt str Delimiter1 vr =
     WriteString (str (la vr))
    (WriteString Delimiter1
    (WriteString (str (ra vr))
    (WriteString Delimiter1
    (WriteString (cmd vr)
    (WriteString Delimiter1
    (WriteString (fmt (stamp vr)) []))))))"







section \<open>The file writer\<close>

text \<open>
  The writer with the part of the world it acts on. An open file is known by its
  name; \<open>files\<close> holds the contents of the files on disk, \<open>closed\<close> the files that
  were closed, in order, and \<open>timer_resets\<close> the durations \<^verbatim>\<open>fileTimer\<close> was reset
  to. \<open>running\<close> says that the goroutine \<^verbatim>\<open>goWriter\<close> has not yet told the wait group
  that it is done. The compressor is the function from what is copied into its
  writer to what that writer puts out.
\<close>

text \<open>The field \<^verbatim>\<open>file\<close> is \<open>w_file\<close>, and \<^verbatim>\<open>done\<close> is \<open>done_flag\<close>.\<close>

record FileWriter =
  comp :: "string \<Rightarrow> string"
  filePath :: string
  fileSize :: int
  fileAge :: int
  w_file :: "string option"
  done_flag :: "32 word"
  sigWriter_closed :: bool
  running :: bool
  files :: "string \<rightharpoonup> string"
  closed :: "string list"
  timer_resets :: "int list"

text \<open>
  What the library calls of one pass through the writer return: the text of
  \<^verbatim>\<open>time.Now().Format(time.RFC3339)\<close>, and for each call that can fail whether it
  succeeds.
\<close>

record env =
  now :: string
  create_ok :: bool
  header_ok :: bool
  seek_ok :: bool
  output_ok :: bool
  getwriter_ok :: bool
  copy_ok :: bool
  line_ok :: bool

definition Version :: string where
  "Version = ''PBTC Log Version 1''"

definition compressLog :: "env \<Rightarrow> string \<Rightarrow> FileWriter \<Rightarrow> FileWriter" where
  "compressLog e name w =
     (if \<not> seek_ok e then w
      else if \<not> output_ok e then w
      else let w1 = w\<lparr>files := (files w)(name @ ''.out'' \<mapsto> [])\<rparr> in
        if \<not> getwriter_ok e then w1
        else if \<not> copy_ok e then w1
        else w1\<lparr>files := (files w1)(name @ ''.out'' \<mapsto>
               comp w (case files w1 name of None \<Rightarrow> [] | Some c \<Rightarrow> c))\<rparr>)"

definition rotateLog :: "env \<Rightarrow> FileWriter \<Rightarrow> FileWriter" where
  "rotateLog e w =
     (let name = filePath w @ now e @ ''.txt'' in
      if \<not> create_ok e then w
      else let w1 = w\<lparr>files := (files w)(name \<mapsto> [])\<rparr> in
        if \<not> header_ok e then w1
        else let w2 = w1\<lparr>files := (files w1)(name \<mapsto> ''#'' @ Version @ newline)\<rparr>;
                 w3 = (case w_file w2 of
                         None \<Rightarrow> w2
                       | Some old \<Rightarrow> (let w' = compressLog e old w2
                                      in w'\<lparr>closed := closed w' @ [old]\<rparr>))
             in w3\<lparr>w_file := Some name\<rparr>)"

definition checkTime :: "env \<Rightarrow> FileWriter \<Rightarrow> FileWriter" where
  "checkTime e w =
     (if fileAge w = 0 then w
      else let w' = rotateLog e w in w'\<lparr>timer_resets := timer_resets w' @ [fileAge w']\<rparr>)"

text \<open>
  \<^verbatim>\<open>checkSize\<close> panics when \<^verbatim>\<open>Stat\<close> fails, which it does on a nil file; the panic is
  the result \<open>Inl\<close>.
\<close>

definition checkSize :: "env \<Rightarrow> FileWriter \<Rightarrow> string + FileWriter" where
  "checkSize e w =
     (if fileSize w = 0 then Inr w
      else (case w_file w of
              None \<Rightarrow> Inl ''invalid argument''
            | Some name \<Rightarrow>
                (case files w name of
                   None \<Rightarrow> Inl ''stat failed''
                 | Some content \<Rightarrow>
                     if int (length content) < fileSize w then Inr w
                     else Inr (rotateLog e w))))"

text \<open>
  \<^verbatim>\<open>goWriter\<close> loops around a \<^verbatim>\<open>select\<close>: the timer fired, or a line came from
  \<^verbatim>\<open>txtQ\<close>, until the \<^verbatim>\<open>select\<close> takes the closed \<^verbatim>\<open>sigWriter\<close>. The list holds
  the cases taken before that one. After the loop the file is closed, and the
  deferred call tells the wait group that the goroutine is done.
\<close>

datatype writer_event = TimerFired env | TxtRecv string env

definition file_WriteString :: "env \<Rightarrow> string \<Rightarrow> FileWriter \<Rightarrow> FileWriter" where
  "file_WriteString e txt w =
     (case w_file w of
        None \<Rightarrow> w
      | Some name \<Rightarrow>
          if line_ok e
          then w\<lparr>files := (files w)(name \<mapsto> (case files w name of None \<Rightarrow> [] | Some c \<Rightarrow> c) @ txt)\<rparr>
          else w)"

fun WriteLoop :: "writer_event list \<Rightarrow> FileWriter \<Rightarrow> string + FileWriter" where
  "WriteLoop [] w = Inr w"
| "WriteLoop (TimerFired e # evs) w = WriteLoop evs (checkTime e w)"
| "WriteLoop (TxtRecv txt e # evs) w =
     (case checkSize e (file_WriteString e (txt @ newline) w) of
        Inl p \<Rightarrow> Inl p
      | Inr w' \<Rightarrow> WriteLoop evs w')"

definition goWriter :: "writer_event list \<Rightarrow> FileWriter \<Rightarrow> string + FileWriter" where
  "goWriter evs w =
     (case WriteLoop evs w of
        Inl p \<Rightarrow> Inl p
      | Inr w' \<Rightarrow>
          Inr (w'\<lparr>closed := closed w' @ (case w_file w' of None \<Rightarrow> [] | Some name \<Rightarrow> [name]),
                  running := False\<rparr>))"

text \<open>
  \<^verbatim>\<open>Stop\<close> swaps 1 into \<^verbatim>\<open>done\<close> and returns if 1 was there. Otherwise it closes
  \<^verbatim>\<open>sigWriter\<close>, which panics on a channel that is closed already, and waits for the
  wait group: if the goroutine is running, for \<^verbatim>\<open>goWriter\<close> to take the cases \<open>evs\<close>
  that come before the closed channel and then to end.
\<close>

definition Stop :: "writer_event list \<Rightarrow> FileWriter \<Rightarrow> string + FileWriter" where
  "Stop evs w =
     (let old = done_flag w; w1 = w\<lparr>done_flag := 1\<rparr> in
      if old = 1 then Inr w1
      else if sigWriter_closed w1 then Inl ''close of closed channel''
      else let w2 = w1\<lparr>sigWriter_closed := True\<rparr> in
        if running w2 then goWriter evs w2 else Inr w2)"

section \<open>Theorems\<close>

text \<open>
  C7. For all uint32 values \<open>x\<close> and \<open>y\<close>, \<^verbatim>\<open>MinUint32(x, y)\<close> is the larger of the
  two, whatever its name says.
\<close>

theorem MinUint32_is_max: "MinUint32 x y = max x y"
  by (auto simp: MinUint32_def max_def)

subsection \<open>Go maps as association lists\<close>

lemma length_AList_update:
  "length (AList.update k v al) = (if k \<in> fst ` set al then length al else Suc (length al))"
  by (induction al) auto

lemma AList_update_fresh: "k \<notin> fst ` set al \<Longrightarrow> AList.update k v al = al @ [(k, v)]"
  by (induction al) auto

lemma fold_update_fresh:
  "distinct (map fst xs) \<Longrightarrow> fst ` set xs \<inter> fst ` set acc = {} \<Longrightarrow>
   fold (\<lambda>(k, n). AList.update k n) xs acc = acc @ xs"
proof (induction xs arbitrary: acc)
  case Nil
  then show ?case by simp
next
  case (Cons p xs)
  obtain k n where p: "p = (k, n)" by (cases p)
  from Cons.prems have "k \<notin> fst ` set acc" by (auto simp: p)
  then have upd: "AList.update k n acc = acc @ [(k, n)]"
    by (rule AList_update_fresh)
  from Cons.prems have "distinct (map fst xs)" "fst ` set xs \<inter> fst ` set (acc @ [(k, n)]) = {}"
    by (auto simp: p)
  from Cons.IH [OF this] show ?case by (simp add: p upd)
qed

subsection \<open>The gob form: decoding what was encoded\<close>

lemma node_GobDecode_GobEncode: "node_GobDecode (node_GobEncode n) m = Inr n"
  by (cases n, cases m) (simp add: node_GobDecode_def node_GobEncode_def)

lemma length_encoded_pairs:
  "length (concat (map (\<lambda>(k, n). [Key k, Elem (node_GobEncode n)]) xs)) = 2 * length xs"
  by (induction xs) auto

lemma decode_pairs_encoded:
  "decode_pairs (concat (map (\<lambda>(k, n). [Key k, Elem (node_GobEncode n)]) xs)) acc
   = (None, fold (\<lambda>(k, n). AList.update k n) xs acc)"
proof (induction xs arbitrary: acc)
  case Nil
  then show ?case by simp
next
  case (Cons p xs)
  obtain k n where p: "p = (k, n)" by (cases p)
  from Cons.IH show ?case by (simp add: p node_GobDecode_GobEncode)
qed

lemma gob_Decode_Encode:
  "gob_Decode (gob_Encode xs) acc = (None, fold (\<lambda>(k, n). AList.update k n) xs acc)"
  by (simp add: gob_Encode_def length_encoded_pairs decode_pairs_encoded)

lemma gob_roundtrip: "distinct (map fst idx) \<Longrightarrow> gob_Decode (gob_Encode idx) [] = (None, idx)"
  by (simp add: gob_Decode_Encode fold_update_fresh)

text \<open>A stream that stops before its end does not decode and leaves the map alone.\<close>

lemma gob_Decode_strict_prefix:
  assumes "strict_prefix written (gob_Encode idx)"
  shows "snd (gob_Decode written acc) = acc \<and> fst (gob_Decode written acc) \<noteq> None"
proof (cases written)
  case Nil
  then show ?thesis by simp
next
  case (Cons v rest)
  with assms have v: "v = TypeDef" and
    rest: "strict_prefix rest (Count (length idx) #
       concat (map (\<lambda>(k, n). [Key k, Elem (node_GobEncode n)]) idx))"
    by (auto simp: gob_Encode_def strict_prefix_def)
  show ?thesis
  proof (cases rest)
    case Nil
    with Cons v show ?thesis by simp
  next
    case (Cons c body)
    with rest have c: "c = Count (length idx)" and
      body: "strict_prefix body (concat (map (\<lambda>(k, n). [Key k, Elem (node_GobEncode n)]) idx))"
      by (auto simp: strict_prefix_def)
    from body have "length body < 2 * length idx"
      by (metis length_encoded_pairs prefix_length_less)
    with \<open>written = v # rest\<close> v Cons c show ?thesis by simp
  qed
qed

subsection \<open>The node handler and the limit\<close>

lemma handleNodes_append:
  "handleNodes str lim idx pre = (idx', InLoop) \<Longrightarrow>
   handleNodes str lim idx (pre @ es) = handleNodes str lim idx' es"
  by (induction str lim idx pre rule: handleNodes.induct) (auto split: if_splits)

text \<open>
  The node handler keeps the keys of the index distinct and the index within the
  limit, and \<^verbatim>\<open>Update\<close> changes no key of the index.
\<close>

lemma handleNodes_within_limit:
  "distinct (map fst idx) \<Longrightarrow> length idx \<le> lim \<Longrightarrow>
   length (fst (handleNodes str lim idx es)) \<le> lim \<and>
   distinct (map fst (fst (handleNodes str lim idx es)))"
proof (induction str lim idx es rule: handleNodes.induct)
  case (4 str lim idx n es)
  show ?case
  proof (cases "map_of idx (str (addr n)) \<noteq> None \<or> lim \<le> length idx")
    case True
    with 4 show ?thesis by auto
  next
    case False
    then have "str (addr n) \<notin> fst ` set idx" by (simp add: map_of_eq_None_iff)
    then have "length (AList.update (str (addr n)) n idx) = Suc (length idx)"
      by (simp add: length_AList_update)
    with False 4 show ?thesis by (auto simp: distinct_update)
  qed
qed simp_all

lemma Update_keys:
  assumes "Update str cap repo a s = Some repo'"
  shows "map fst (nodeIndex repo') = map fst (nodeIndex repo)"
proof (cases "map_of (nodeIndex repo) (str a)")
  case None
  with assms show ?thesis
    by (auto simp: Update_def split: if_splits)
next
  case (Some n)
  then have "str a \<in> fst ` set (nodeIndex repo)"
    by (metis map_of_eq_None_iff option.distinct(1))
  then have "map fst (AList.update (str a) (n\<lparr>src := s\<rparr>) (nodeIndex repo)) = map fst (nodeIndex repo)"
    by (simp add: update_keys)
  with Some assms show ?thesis
    by (auto simp: Update_def)
qed

text \<open>
  C1. The number of entries of the node index never exceeds the node limit: the
  node handler and the restore from disk both keep it so, and an insert that
  arrives while the index is at the limit is dropped. The node handler does keep
  the limit (\<open>handleNodes_within_limit\<close>), but \<^verbatim>\<open>restore\<close> does not look at it:
  a \<^verbatim>\<open>nodes.dat\<close> that holds two nodes is restored whole into the empty index, so
  that a repository whose limit is 1 holds two nodes after its start.
\<close>

theorem restore_exceeds_limit:
  "length (restore
     [''nodes.dat'' \<mapsto> gob_Encode
        [(''1.2.3.4:8333'',
          newNode \<lparr>IP = [1, 2, 3, 4], Port = 8333, Zone = []\<rparr> \<lparr>IP = [0, 0, 0, 0], Port = 0, Zone = []\<rparr>),
         (''5.6.7.8:8333'',
          newNode \<lparr>IP = [5, 6, 7, 8], Port = 8333, Zone = []\<rparr> \<lparr>IP = [0, 0, 0, 0], Port = 0, Zone = []\<rparr>)]]
     []) = 2"
  by (simp add: restore_def gob_Decode_Encode)

text \<open>
  C9. As soon as the node handler takes from the queue a node whose address is in
  the index already, or any node while the index is at the limit, it returns, and
  whatever comes after on the queue (or on the signal channel) does not change the
  index any more.
\<close>

theorem handleNodes_returns:
  assumes "handleNodes str maxNodeCount idx pre = (idx', InLoop)"
    and "map_of idx' (str (addr n)) \<noteq> None \<or> maxNodeCount \<le> length idx'"
  shows "handleNodes str maxNodeCount idx (pre @ NodeRecv n # post) = (idx', Returned)"
  using assms by (auto simp: handleNodes_append)

theorem handleNodes_returns_witness:
  "handleNodes (\<lambda>a. if IP a = [1, 2, 3, 4] then ''1.2.3.4:8333'' else ''5.6.7.8:8333'') 5 []
     ([NodeRecv (newNode \<lparr>IP = [1, 2, 3, 4], Port = 8333, Zone = []\<rparr> \<lparr>IP = [0, 0, 0, 0], Port = 0, Zone = []\<rparr>)] @
      NodeRecv (newNode \<lparr>IP = [1, 2, 3, 4], Port = 8333, Zone = []\<rparr> \<lparr>IP = [9, 9, 9, 9], Port = 8333, Zone = []\<rparr>) #
      [NodeRecv (newNode \<lparr>IP = [5, 6, 7, 8], Port = 8333, Zone = []\<rparr> \<lparr>IP = [0, 0, 0, 0], Port = 0, Zone = []\<rparr>)])
   = ([(''1.2.3.4:8333'',
        newNode \<lparr>IP = [1, 2, 3, 4], Port = 8333, Zone = []\<rparr> \<lparr>IP = [0, 0, 0, 0], Port = 0, Zone = []\<rparr>)],
      Returned) \<and>
   handleNodes (\<lambda>a. if IP a = [1, 2, 3, 4] then ''1.2.3.4:8333'' else ''5.6.7.8:8333'') 5 []
     [NodeRecv (newNode \<lparr>IP = [1, 2, 3, 4], Port = 8333, Zone = []\<rparr> \<lparr>IP = [0, 0, 0, 0], Port = 0, Zone = []\<rparr>),
      NodeRecv (newNode \<lparr>IP = [5, 6, 7, 8], Port = 8333, Zone = []\<rparr> \<lparr>IP = [0, 0, 0, 0], Port = 0, Zone = []\<rparr>)]
   = ([(''1.2.3.4:8333'',
        newNode \<lparr>IP = [1, 2, 3, 4], Port = 8333, Zone = []\<rparr> \<lparr>IP = [0, 0, 0, 0], Port = 0, Zone = []\<rparr>),
       (''5.6.7.8:8333'',
        newNode \<lparr>IP = [5, 6, 7, 8], Port = 8333, Zone = []\<rparr> \<lparr>IP = [0, 0, 0, 0], Port = 0, Zone = []\<rparr>)],
      InLoop)"
proof -
  let ?str = "\<lambda>a. if IP a = [1, 2, 3, 4] then ''1.2.3.4:8333'' else ''5.6.7.8:8333''"
  let ?n = "newNode \<lparr>IP = [1, 2, 3, 4], Port = 8333, Zone = []\<rparr> \<lparr>IP = [0, 0, 0, 0], Port = 0, Zone = []\<rparr>"
  let ?m = "newNode \<lparr>IP = [1, 2, 3, 4], Port = 8333, Zone = []\<rparr> \<lparr>IP = [9, 9, 9, 9], Port = 8333, Zone = []\<rparr>"
  have pre: "handleNodes ?str 5 [] [NodeRecv ?n] = ([(''1.2.3.4:8333'', ?n)], InLoop)"
    by (simp add: newNode_def)
  have hit: "map_of [(''1.2.3.4:8333'', ?n)] (?str (addr ?m)) \<noteq> None \<or>
      (5::nat) \<le> length [(''1.2.3.4:8333'', ?n)]"
    by (simp add: newNode_def)
  have other: "handleNodes ?str 5 []
     [NodeRecv ?n,
      NodeRecv (newNode \<lparr>IP = [5, 6, 7, 8], Port = 8333, Zone = []\<rparr> \<lparr>IP = [0, 0, 0, 0], Port = 0, Zone = []\<rparr>)]
   = ([(''1.2.3.4:8333'', ?n),
       (''5.6.7.8:8333'',
        newNode \<lparr>IP = [5, 6, 7, 8], Port = 8333, Zone = []\<rparr> \<lparr>IP = [0, 0, 0, 0], Port = 0, Zone = []\<rparr>)],
      InLoop)"
    by (simp add: newNode_def)
  from handleNodes_returns [OF pre hit] other show ?thesis by simp
qed

text \<open>
  C5. \<^verbatim>\<open>Get\<close> fails if and only if the node index is empty, and then with the error
  that says so; on an index that is not empty it returns the address of a node of
  the index, whatever number was drawn.
\<close>

lemma Get_range_Some:
  "i \<le> index \<Longrightarrow> index < i + length idx \<Longrightarrow>
   \<exists>n \<in> snd ` set idx. Get_range idx i index = Some (addr n)"
proof (induction idx arbitrary: i)
  case Nil
  then show ?case by simp
next
  case (Cons p idx)
  obtain k n where p: "p = (k, n)" by (cases p)
  show ?case
  proof (cases "i = index")
    case True
    then show ?thesis by (simp add: p)
  next
    case False
    with Cons.prems have "i + 1 \<le> index" "index < (i + 1) + length idx" by simp_all
    from Cons.IH [OF this] False show ?thesis by (auto simp: p)
  qed
qed

theorem Get_fails_iff_empty:
  "((\<exists>e. Get idx r = Inl e) \<longleftrightarrow> idx = []) \<and>
   Get [] r = Inl ''No nodes in repository'' \<and>
   (idx \<noteq> [] \<longrightarrow> (\<exists>n \<in> snd ` set idx. Get idx r = Inr (addr n)))"
proof -
  have ne: "\<exists>n \<in> snd ` set idx. Get idx r = Inr (addr n)" if "idx \<noteq> []"
  proof -
    from that have "r mod length idx < 0 + length idx" by simp
    with Get_range_Some [of 0 "r mod length idx" idx]
    obtain n where "n \<in> snd ` set idx" "Get_range idx 0 (r mod length idx) = Some (addr n)"
      by auto
    with that show ?thesis by (auto simp: Get_def)
  qed
  have "Get [] r = Inl ''No nodes in repository''" by (simp add: Get_def)
  with ne show ?thesis by (cases "idx = []") auto
qed

theorem Get_fails_iff_empty_witness:
  "[(''1.2.3.4:8333'', newNode \<lparr>IP = [1, 2, 3, 4], Port = 8333, Zone = []\<rparr> \<lparr>IP = [], Port = 0, Zone = []\<rparr>)] \<noteq> [] \<and>
   Get [(''1.2.3.4:8333'', newNode \<lparr>IP = [1, 2, 3, 4], Port = 8333, Zone = []\<rparr> \<lparr>IP = [], Port = 0, Zone = []\<rparr>)] 7
     = Inr \<lparr>IP = [1, 2, 3, 4], Port = 8333, Zone = []\<rparr> \<and>
   Get [] 7 = Inl ''No nodes in repository''"
  using Get_fails_iff_empty
    [of "[(''1.2.3.4:8333'', newNode \<lparr>IP = [1, 2, 3, 4], Port = 8333, Zone = []\<rparr> \<lparr>IP = [], Port = 0, Zone = []\<rparr>)]" 7]
  by (simp add: newNode_def Get_def)

subsection \<open>Saving the index\<close>

text \<open>
  C2. \<^verbatim>\<open>save\<close> writes the whole node index to a temporary file and then renames
  it over the live file, so that \<^verbatim>\<open>restore\<close> never sees a file written in part.
  This fails: \<^verbatim>\<open>save\<close> truncates the live file itself and writes into it. With a
  \<^verbatim>\<open>nodes.dat\<close> that holds one node and an index of another node to save, the disk
  goes through a state in which \<^verbatim>\<open>nodes.dat\<close> is empty and through one in which it
  holds the beginning of the new stream only, and from either \<^verbatim>\<open>restore\<close> gets
  neither the old nor the new index but nothing.
\<close>

theorem save_truncates_live_file:
  "(save_states Ok None
      [(''5.6.7.8:8333'',
        newNode \<lparr>IP = [5, 6, 7, 8], Port = 8333, Zone = []\<rparr> \<lparr>IP = [0, 0, 0, 0], Port = 0, Zone = []\<rparr>)]
      [''nodes.dat'' \<mapsto> gob_Encode
        [(''1.2.3.4:8333'',
          newNode \<lparr>IP = [1, 2, 3, 4], Port = 8333, Zone = []\<rparr> \<lparr>IP = [0, 0, 0, 0], Port = 0, Zone = []\<rparr>)]]
    ! 1) ''nodes.dat'' = Some [] \<and>
   restore
    (save_states Ok None
      [(''5.6.7.8:8333'',
        newNode \<lparr>IP = [5, 6, 7, 8], Port = 8333, Zone = []\<rparr> \<lparr>IP = [0, 0, 0, 0], Port = 0, Zone = []\<rparr>)]
      [''nodes.dat'' \<mapsto> gob_Encode
        [(''1.2.3.4:8333'',
          newNode \<lparr>IP = [1, 2, 3, 4], Port = 8333, Zone = []\<rparr> \<lparr>IP = [0, 0, 0, 0], Port = 0, Zone = []\<rparr>)]]
    ! 1) [] = [] \<and>
   (save_states Ok None
      [(''5.6.7.8:8333'',
        newNode \<lparr>IP = [5, 6, 7, 8], Port = 8333, Zone = []\<rparr> \<lparr>IP = [0, 0, 0, 0], Port = 0, Zone = []\<rparr>)]
      [''nodes.dat'' \<mapsto> gob_Encode
        [(''1.2.3.4:8333'',
          newNode \<lparr>IP = [1, 2, 3, 4], Port = 8333, Zone = []\<rparr> \<lparr>IP = [0, 0, 0, 0], Port = 0, Zone = []\<rparr>)]]
    ! 4) ''nodes.dat'' = Some [TypeDef, Count 1, Key ''5.6.7.8:8333''] \<and>
   restore
    (save_states Ok None
      [(''5.6.7.8:8333'',
        newNode \<lparr>IP = [5, 6, 7, 8], Port = 8333, Zone = []\<rparr> \<lparr>IP = [0, 0, 0, 0], Port = 0, Zone = []\<rparr>)]
      [''nodes.dat'' \<mapsto> gob_Encode
        [(''1.2.3.4:8333'',
          newNode \<lparr>IP = [1, 2, 3, 4], Port = 8333, Zone = []\<rparr> \<lparr>IP = [0, 0, 0, 0], Port = 0, Zone = []\<rparr>)]]
    ! 4) [] = []"
  by (simp add: save_states_def gob_Encode_def restore_def)

text \<open>
  C2, amended. \<^verbatim>\<open>save\<close> creates or truncates the live file \<^verbatim>\<open>nodes.dat\<close> itself and
  then encodes the whole node index into it; in no state of the disk during
  \<^verbatim>\<open>save\<close> is any other file changed, so there is no temporary file and no rename.
  After a \<^verbatim>\<open>save\<close> that completes, the file holds the encoding of the index, each
  node by its \<^verbatim>\<open>GobEncode\<close>, and \<^verbatim>\<open>restore\<close> into an empty index gives back an
  index with distinct keys as it was saved, each node with its six fields. While
  \<^verbatim>\<open>save\<close> runs, the live file goes through every beginning of that encoding that
  stops short of its end, the empty one first, and a \<^verbatim>\<open>restore\<close> that reads such a
  file leaves the index as it is.
\<close>

theorem save_in_place:
  "(\<forall>d' \<in> set (save_states c e idx d). \<forall>name. name \<noteq> ''nodes.dat'' \<longrightarrow> d' name = d name) \<and>
   save Ok None idx d ''nodes.dat'' = Some (gob_Encode idx) \<and>
   (distinct (map fst idx) \<longrightarrow> restore (save Ok None idx d) [] = idx) \<and>
   (\<forall>written. strict_prefix written (gob_Encode idx) \<longrightarrow>
      d(''nodes.dat'' \<mapsto> written) \<in> set (save_states Ok None idx d) \<and>
      restore (d(''nodes.dat'' \<mapsto> written)) idx0 = idx0)"
proof -
  have other: "\<forall>d' \<in> set (save_states c e idx d). \<forall>name. name \<noteq> ''nodes.dat'' \<longrightarrow> d' name = d name"
    by (auto simp: save_states_def)
  have fin: "save Ok None idx d = d(''nodes.dat'' \<mapsto> gob_Encode idx)"
    by (simp add: save_def save_states_def last_map)
  then have live: "save Ok None idx d ''nodes.dat'' = Some (gob_Encode idx)"
    by simp
  from fin have rt: "distinct (map fst idx) \<longrightarrow> restore (save Ok None idx d) [] = idx"
    by (simp add: restore_def gob_roundtrip)
  have part: "d(''nodes.dat'' \<mapsto> written) \<in> set (save_states Ok None idx d) \<and>
      restore (d(''nodes.dat'' \<mapsto> written)) idx0 = idx0"
    if "strict_prefix written (gob_Encode idx)" for written
  proof -
    from that have "prefix written (gob_Encode idx)" by (simp add: strict_prefix_def)
    then have "d(''nodes.dat'' \<mapsto> written) \<in> set (save_states Ok None idx d)"
      by (simp add: save_states_def)
    moreover from gob_Decode_strict_prefix [OF that]
    have "restore (d(''nodes.dat'' \<mapsto> written)) idx0 = idx0"
      by (simp add: restore_def)
    ultimately show ?thesis by simp
  qed
  from other live rt part show ?thesis by blast
qed

theorem save_in_place_witness:
  "save_states Ok None
      [(''5.6.7.8:8333'',
        newNode \<lparr>IP = [5, 6, 7, 8], Port = 8333, Zone = []\<rparr> \<lparr>IP = [0, 0, 0, 0], Port = 0, Zone = []\<rparr>)]
      Map.empty ! 2 \<in> set (save_states Ok None
      [(''5.6.7.8:8333'',
        newNode \<lparr>IP = [5, 6, 7, 8], Port = 8333, Zone = []\<rparr> \<lparr>IP = [0, 0, 0, 0], Port = 0, Zone = []\<rparr>)]
      Map.empty) \<and>
   ''nodes.tmp'' \<noteq> ''nodes.dat'' \<and>
   (save_states Ok None
      [(''5.6.7.8:8333'',
        newNode \<lparr>IP = [5, 6, 7, 8], Port = 8333, Zone = []\<rparr> \<lparr>IP = [0, 0, 0, 0], Port = 0, Zone = []\<rparr>)]
      Map.empty ! 2) ''nodes.tmp'' = None \<and>
   distinct (map fst
      [(''5.6.7.8:8333'',
        newNode \<lparr>IP = [5, 6, 7, 8], Port = 8333, Zone = []\<rparr> \<lparr>IP = [0, 0, 0, 0], Port = 0, Zone = []\<rparr>)]) \<and>
   restore (save Ok None
      [(''5.6.7.8:8333'',
        newNode \<lparr>IP = [5, 6, 7, 8], Port = 8333, Zone = []\<rparr> \<lparr>IP = [0, 0, 0, 0], Port = 0, Zone = []\<rparr>)]
      Map.empty) [] =
      [(''5.6.7.8:8333'',
        newNode \<lparr>IP = [5, 6, 7, 8], Port = 8333, Zone = []\<rparr> \<lparr>IP = [0, 0, 0, 0], Port = 0, Zone = []\<rparr>)] \<and>
   strict_prefix [TypeDef, Count 1] (gob_Encode
      [(''5.6.7.8:8333'',
        newNode \<lparr>IP = [5, 6, 7, 8], Port = 8333, Zone = []\<rparr> \<lparr>IP = [0, 0, 0, 0], Port = 0, Zone = []\<rparr>)]) \<and>
   restore [''nodes.dat'' \<mapsto> [TypeDef, Count 1]] [] = []"
proof -
  let ?idx = "[(''5.6.7.8:8333'',
        newNode \<lparr>IP = [5, 6, 7, 8], Port = 8333, Zone = []\<rparr> \<lparr>IP = [0, 0, 0, 0], Port = 0, Zone = []\<rparr>)]"
  note inst = save_in_place [of Ok None ?idx Map.empty "[]"]
  have st: "save_states Ok None ?idx Map.empty ! 2 \<in> set (save_states Ok None ?idx Map.empty)"
    by (simp add: save_states_def gob_Encode_def)
  have nm: "''nodes.tmp'' \<noteq> ''nodes.dat''" by simp
  note other = inst [THEN conjunct1, THEN bspec, OF st, THEN spec, THEN mp, OF nm]
  have dk: "distinct (map fst ?idx)" by simp
  note rt = inst [THEN conjunct2, THEN conjunct2, THEN conjunct1, THEN mp, OF dk]
  have sp: "strict_prefix [TypeDef, Count 1] (gob_Encode ?idx)"
    by (simp add: gob_Encode_def strict_prefix_def)
  note pr = inst [THEN conjunct2, THEN conjunct2, THEN conjunct2, THEN spec, THEN mp, OF sp,
    THEN conjunct2]
  show ?thesis
    by (intro conjI) (rule st nm other dk rt sp pr)+
qed

subsection \<open>New peers\<close>

text \<open>
  C4. When the manager processes a new peer whose address is in the peer index
  already, or while the index is at the peer limit, the peer is not added and is
  stopped; otherwise it is started and added. The first part fails:
  \<^verbatim>\<open>processNewPeer\<close> does not call \<^verbatim>\<open>Stop\<close> on a peer that it discards, so a peer
  that comes a second time is not stopped.
\<close>

theorem processNewPeer_does_not_stop:
  "processNewPeer 1000 [(''1.2.3.4:8333'', \<lparr>peer_String = ''1.2.3.4:8333''\<rparr>)]
     \<lparr>peer_String = ''1.2.3.4:8333''\<rparr>
   = ([(''1.2.3.4:8333'', \<lparr>peer_String = ''1.2.3.4:8333''\<rparr>)], []) \<and>
   Peer_Stop \<notin> set (snd (processNewPeer 1000 [(''1.2.3.4:8333'', \<lparr>peer_String = ''1.2.3.4:8333''\<rparr>)]
     \<lparr>peer_String = ''1.2.3.4:8333''\<rparr>))"
  by (simp add: processNewPeer_def)

text \<open>
  C4, amended. When the manager processes a new peer whose address is in the peer
  index already, or while the index is at the peer limit, the index stays as it is
  and neither \<^verbatim>\<open>Start\<close> nor \<^verbatim>\<open>Stop\<close> is called on the peer. Otherwise \<^verbatim>\<open>Start\<close> is
  called on the peer, and the index then maps the key of the peer to it and has one
  entry more.
\<close>

theorem processNewPeer_cases:
  "(map_of peerIndex (peer_String p) \<noteq> None \<or> maxPeerCount \<le> length peerIndex \<longrightarrow>
      processNewPeer maxPeerCount peerIndex p = (peerIndex, [])) \<and>
   (map_of peerIndex (peer_String p) = None \<and> length peerIndex < maxPeerCount \<longrightarrow>
      snd (processNewPeer maxPeerCount peerIndex p) = [Peer_Start] \<and>
      map_of (fst (processNewPeer maxPeerCount peerIndex p)) = (map_of peerIndex)(peer_String p \<mapsto> p) \<and>
      length (fst (processNewPeer maxPeerCount peerIndex p)) = Suc (length peerIndex))"
  by (auto simp: processNewPeer_def update_conv' length_AList_update map_of_eq_None_iff)

theorem processNewPeer_cases_witness:
  "(map_of [(''1.2.3.4:8333'', \<lparr>peer_String = ''1.2.3.4:8333''\<rparr>)] ''1.2.3.4:8333'' \<noteq> None \<and>
    processNewPeer 2 [(''1.2.3.4:8333'', \<lparr>peer_String = ''1.2.3.4:8333''\<rparr>)] \<lparr>peer_String = ''1.2.3.4:8333''\<rparr>
      = ([(''1.2.3.4:8333'', \<lparr>peer_String = ''1.2.3.4:8333''\<rparr>)], [])) \<and>
   (map_of [(''1.2.3.4:8333'', \<lparr>peer_String = ''1.2.3.4:8333''\<rparr>)] ''5.6.7.8:8333'' = None \<and>
    length [(''1.2.3.4:8333'', \<lparr>peer_String = ''1.2.3.4:8333''\<rparr>)] < (2::nat) \<and>
    snd (processNewPeer 2 [(''1.2.3.4:8333'', \<lparr>peer_String = ''1.2.3.4:8333''\<rparr>)] \<lparr>peer_String = ''5.6.7.8:8333''\<rparr>)
      = [Peer_Start] \<and>
    length (fst (processNewPeer 2 [(''1.2.3.4:8333'', \<lparr>peer_String = ''1.2.3.4:8333''\<rparr>)]
      \<lparr>peer_String = ''5.6.7.8:8333''\<rparr>)) = 2)"
  using processNewPeer_cases
      [of "[(''1.2.3.4:8333'', \<lparr>peer_String = ''1.2.3.4:8333''\<rparr>)]" "\<lparr>peer_String = ''1.2.3.4:8333''\<rparr>" 2]
    processNewPeer_cases
      [of "[(''1.2.3.4:8333'', \<lparr>peer_String = ''1.2.3.4:8333''\<rparr>)]" "\<lparr>peer_String = ''5.6.7.8:8333''\<rparr>" 2]
  by simp

subsection \<open>The text form of a record\<close>

lemma fold_WriteString_entries:
  "fold (\<lambda>a buf. WriteString (entry_String a) (WriteString '' '' (WriteString newline buf))) xs buf
   = buf @ concat (map (\<lambda>a. newline @ '' '' @ entry_String a) xs)"
  by (induction xs arbitrary: buf) (simp_all add: WriteString_def)

text \<open>
  C3. For every record type the text form begins with the command, followed by
  the RFC3339Nano timestamp, the remote address and the local address, single
  spaces between them. This fails for \<^verbatim>\<open>VerAckRecord\<close>, whose text begins with the
  timestamp: the \<^verbatim>\<open>verack\<close> that 1.2.3.4:8333 sent to 10.0.0.1:50000 on 1 June 2015
  at noon (UTC) reads \<^verbatim>\<open>2015-06-01T12:00:00Z verack 1.2.3.4:8333 10.0.0.1:50000\<close>, with
  a space for \<^verbatim>\<open>Delimiter1\<close>.
\<close>

theorem VerAckRecord_String_begins_with_stamp:
  "VerAckRecord_String
     (\<lambda>t. ''2015-06-01T12:00:00Z'')
     (\<lambda>a. if Port a = 8333 then ''1.2.3.4:8333'' else ''10.0.0.1:50000'')
     '' ''
     \<lparr>stamp = 1433160000000000000,
      ra = \<lparr>IP = [1, 2, 3, 4], Port = 8333, Zone = []\<rparr>,
      la = \<lparr>IP = [10, 0, 0, 1], Port = 50000, Zone = []\<rparr>,
      cmd = ''verack''\<rparr>
   = ''2015-06-01T12:00:00Z verack 1.2.3.4:8333 10.0.0.1:50000'' \<and>
   \<not> prefix ''verack''
     (VerAckRecord_String
       (\<lambda>t. ''2015-06-01T12:00:00Z'')
       (\<lambda>a. if Port a = 8333 then ''1.2.3.4:8333'' else ''10.0.0.1:50000'')
       '' ''
       \<lparr>stamp = 1433160000000000000,
        ra = \<lparr>IP = [1, 2, 3, 4], Port = 8333, Zone = []\<rparr>,
        la = \<lparr>IP = [10, 0, 0, 1], Port = 50000, Zone = []\<rparr>,
        cmd = ''verack''\<rparr>)"
  by (simp add: VerAckRecord_String_def WriteString_def)

text \<open>
  C3, amended. The text form of an \<^verbatim>\<open>AddressRecord\<close> begins with the command,
  followed by the RFC3339Nano timestamp, the remote address and the local address,
  in that order, each followed by a single space. The text form of a
  \<^verbatim>\<open>VerAckRecord\<close> is the timestamp, the command, the remote address and the local
  address, in that order, with \<^verbatim>\<open>Delimiter1\<close> between them.
\<close>

theorem record_text_order:
  "prefix (cmd ar @ '' '' @ fmt (stamp ar) @ '' '' @ str (ra ar) @ '' '' @ str (la ar) @ '' '')
     (AddressRecord_String fmt str entry_String ar) \<and>
   VerAckRecord_String fmt str Delimiter1 vr
     = fmt (stamp vr) @ Delimiter1 @ cmd vr @ Delimiter1 @ str (ra vr) @ Delimiter1 @ str (la vr)"
proof -
  have "AddressRecord_String fmt str entry_String ar
      = (cmd ar @ '' '' @ fmt (stamp ar) @ '' '' @ str (ra ar) @ '' '' @ str (la ar) @ '' '') @
        (FormatInt (int (length (addrs ar))) @
         concat (map (\<lambda>a. newline @ '' '' @ entry_String a) (addrs ar)))"
    unfolding AddressRecord_String_def fold_WriteString_entries
    by (simp add: WriteString_def)
  then have "prefix (cmd ar @ '' '' @ fmt (stamp ar) @ '' '' @ str (ra ar) @ '' '' @ str (la ar) @ '' '')
     (AddressRecord_String fmt str entry_String ar)"
    by (simp only: prefixI)
  moreover have "VerAckRecord_String fmt str Delimiter1 vr
     = fmt (stamp vr) @ Delimiter1 @ cmd vr @ Delimiter1 @ str (ra vr) @ Delimiter1 @ str (la vr)"
    by (simp add: VerAckRecord_String_def WriteString_def)
  ultimately show ?thesis by simp
qed

subsection \<open>The binary form of an address record\<close>













subsection \<open>The file writer: rotation\<close>

text \<open>
  With limits that are not zero the checks do rotate: when the new file can be
  created and its header written, the writer goes on with the new file.
\<close>

lemma rotateLog_new_file:
  "create_ok e \<Longrightarrow> header_ok e \<Longrightarrow> w_file (rotateLog e w) = Some (filePath w @ now e @ ''.txt'')"
  by (simp add: rotateLog_def Let_def)

lemma checkTime_rotates:
  "fileAge w \<noteq> 0 \<Longrightarrow> create_ok e \<Longrightarrow> header_ok e \<Longrightarrow>
   w_file (checkTime e w) = Some (filePath w @ now e @ ''.txt'')"
  by (simp add: checkTime_def Let_def rotateLog_new_file)

text \<open>
  C8. A limit of zero switches the rotation off: with \<^verbatim>\<open>AgeLimit\<close> 0 the check
  that the timer starts rotates nothing, and with \<^verbatim>\<open>SizeLimit\<close> 0 the check after a
  write rotates nothing, in every state of the writer and whatever the library calls
  would return: the writer and the files are as they were before the check.
\<close>

theorem zero_limit_no_rotation:
  "(fileAge w = 0 \<longrightarrow> checkTime e w = w) \<and>
   (fileSize w = 0 \<longrightarrow> checkSize e w = Inr w)"
  by (simp add: checkTime_def checkSize_def)

theorem zero_limit_no_rotation_witness:
  "fileAge \<lparr>comp = id, filePath = ''logs/'', fileSize = 0, fileAge = 0,
      w_file = Some ''logs/2015-06-01T12:00:00Z.txt'', done_flag = 0, sigWriter_closed = False,
      running = True, files = [''logs/2015-06-01T12:00:00Z.txt'' \<mapsto> ''#PBTC Log Version 1''],
      closed = [], timer_resets = []\<rparr> = 0 \<and>
   fileSize \<lparr>comp = id, filePath = ''logs/'', fileSize = 0, fileAge = 0,
      w_file = Some ''logs/2015-06-01T12:00:00Z.txt'', done_flag = 0, sigWriter_closed = False,
      running = True, files = [''logs/2015-06-01T12:00:00Z.txt'' \<mapsto> ''#PBTC Log Version 1''],
      closed = [], timer_resets = []\<rparr> = 0 \<and>
   checkTime \<lparr>now = ''2015-06-01T13:00:00Z'', create_ok = True, header_ok = True, seek_ok = True,
      output_ok = True, getwriter_ok = True, copy_ok = True, line_ok = True\<rparr>
     \<lparr>comp = id, filePath = ''logs/'', fileSize = 0, fileAge = 0,
      w_file = Some ''logs/2015-06-01T12:00:00Z.txt'', done_flag = 0, sigWriter_closed = False,
      running = True, files = [''logs/2015-06-01T12:00:00Z.txt'' \<mapsto> ''#PBTC Log Version 1''],
      closed = [], timer_resets = []\<rparr>
   = \<lparr>comp = id, filePath = ''logs/'', fileSize = 0, fileAge = 0,
      w_file = Some ''logs/2015-06-01T12:00:00Z.txt'', done_flag = 0, sigWriter_closed = False,
      running = True, files = [''logs/2015-06-01T12:00:00Z.txt'' \<mapsto> ''#PBTC Log Version 1''],
      closed = [], timer_resets = []\<rparr> \<and>
   checkSize \<lparr>now = ''2015-06-01T13:00:00Z'', create_ok = True, header_ok = True, seek_ok = True,
      output_ok = True, getwriter_ok = True, copy_ok = True, line_ok = True\<rparr>
     \<lparr>comp = id, filePath = ''logs/'', fileSize = 0, fileAge = 0,
      w_file = Some ''logs/2015-06-01T12:00:00Z.txt'', done_flag = 0, sigWriter_closed = False,
      running = True, files = [''logs/2015-06-01T12:00:00Z.txt'' \<mapsto> ''#PBTC Log Version 1''],
      closed = [], timer_resets = []\<rparr>
   = Inr \<lparr>comp = id, filePath = ''logs/'', fileSize = 0, fileAge = 0,
      w_file = Some ''logs/2015-06-01T12:00:00Z.txt'', done_flag = 0, sigWriter_closed = False,
      running = True, files = [''logs/2015-06-01T12:00:00Z.txt'' \<mapsto> ''#PBTC Log Version 1''],
      closed = [], timer_resets = []\<rparr>"
  using zero_limit_no_rotation
    [of "\<lparr>comp = id, filePath = ''logs/'', fileSize = 0, fileAge = 0,
      w_file = Some ''logs/2015-06-01T12:00:00Z.txt'', done_flag = 0, sigWriter_closed = False,
      running = True, files = [''logs/2015-06-01T12:00:00Z.txt'' \<mapsto> ''#PBTC Log Version 1''],
      closed = [], timer_resets = []\<rparr>"
     "\<lparr>now = ''2015-06-01T13:00:00Z'', create_ok = True, header_ok = True, seek_ok = True,
      output_ok = True, getwriter_ok = True, copy_ok = True, line_ok = True\<rparr>"]
  by simp

subsection \<open>The file writer: Stop\<close>

lemma compressLog_flags:
  "done_flag (compressLog e name w) = done_flag w \<and>
   sigWriter_closed (compressLog e name w) = sigWriter_closed w"
  by (simp add: compressLog_def Let_def)

lemma rotateLog_flags:
  "done_flag (rotateLog e w) = done_flag w \<and>
   sigWriter_closed (rotateLog e w) = sigWriter_closed w"
  by (simp add: rotateLog_def Let_def compressLog_flags split: option.splits)

lemma checkTime_flags:
  "done_flag (checkTime e w) = done_flag w \<and>
   sigWriter_closed (checkTime e w) = sigWriter_closed w"
  by (simp add: checkTime_def Let_def rotateLog_flags)

lemma checkSize_flags:
  "checkSize e w = Inr w' \<Longrightarrow>
   done_flag w' = done_flag w \<and> sigWriter_closed w' = sigWriter_closed w"
  by (auto simp: checkSize_def rotateLog_flags split: if_splits option.splits)

lemma file_WriteString_flags:
  "done_flag (file_WriteString e txt w) = done_flag w \<and>
   sigWriter_closed (file_WriteString e txt w) = sigWriter_closed w"
  by (simp add: file_WriteString_def split: option.splits)

lemma WriteLoop_flags:
  "WriteLoop evs w = Inr w' \<Longrightarrow>
   done_flag w' = done_flag w \<and> sigWriter_closed w' = sigWriter_closed w"
proof (induction evs w rule: WriteLoop.induct)
  case (1 w)
  then show ?case by simp
next
  case (2 e evs w)
  then show ?case by (simp add: checkTime_flags)
next
  case (3 line e evs w)
  from "3.prems" obtain w1 where
    w1: "checkSize e (file_WriteString e (line @ newline) w) = Inr w1" and
    rest: "WriteLoop evs w1 = Inr w'"
    by (auto split: sum.splits)
  from "3.IH" [OF w1 rest] checkSize_flags [OF w1] show ?case
    by (simp add: file_WriteString_flags)
qed

lemma goWriter_flags:
  "goWriter evs w = Inr w' \<Longrightarrow>
   done_flag w' = done_flag w \<and> sigWriter_closed w' = sigWriter_closed w \<and> \<not> running w'"
  by (auto simp: goWriter_def split: sum.splits dest: WriteLoop_flags)

text \<open>
  C10. \<^verbatim>\<open>Stop\<close> is idempotent. A first call that returns has set the flag, closed
  the channel and waited for the goroutine of the writer, which is then not running
  any more; every later call finds the flag set and returns at once, with the
  writer as the first call left it.
\<close>

theorem Stop_idempotent:
  assumes "Stop evs w = Inr w'"
  shows "done_flag w' = 1 \<and> Stop evs' w' = Inr w' \<and>
    (done_flag w \<noteq> 1 \<longrightarrow> sigWriter_closed w' \<and> \<not> running w')"
proof -
  have flag: "done_flag w' = 1 \<and> (done_flag w \<noteq> 1 \<longrightarrow> sigWriter_closed w' \<and> \<not> running w')"
  proof (cases "done_flag w = 1")
    case True
    with assms show ?thesis by (auto simp: Stop_def Let_def)
  next
    case False
    show ?thesis
    proof (cases "running w")
      case True
      with False assms have "goWriter evs (w\<lparr>done_flag := 1, sigWriter_closed := True\<rparr>) = Inr w'"
        by (auto simp: Stop_def Let_def split: if_splits)
      from goWriter_flags [OF this] show ?thesis by simp
    next
      case nr: False
      with False assms have "w' = w\<lparr>done_flag := 1, sigWriter_closed := True\<rparr>"
        by (auto simp: Stop_def Let_def split: if_splits)
      with nr show ?thesis by simp
    qed
  qed
  then have "w'\<lparr>done_flag := 1\<rparr> = w'" by (cases w') simp
  with flag have "Stop evs' w' = Inr w'" by (simp add: Stop_def Let_def)
  with flag show ?thesis by simp
qed

theorem Stop_idempotent_witness:
  "Stop []
     \<lparr>comp = id, filePath = ''logs/'', fileSize = 0, fileAge = 300000000000,
      w_file = Some ''logs/2015-06-01T12:00:00Z.txt'', done_flag = 0, sigWriter_closed = False,
      running = True, files = [''logs/2015-06-01T12:00:00Z.txt'' \<mapsto> ''#PBTC Log Version 1''],
      closed = [], timer_resets = []\<rparr>
   = Inr \<lparr>comp = id, filePath = ''logs/'', fileSize = 0, fileAge = 300000000000,
      w_file = Some ''logs/2015-06-01T12:00:00Z.txt'', done_flag = 1, sigWriter_closed = True,
      running = False, files = [''logs/2015-06-01T12:00:00Z.txt'' \<mapsto> ''#PBTC Log Version 1''],
      closed = [''logs/2015-06-01T12:00:00Z.txt''], timer_resets = []\<rparr> \<and>
   Stop [TimerFired \<lparr>now = ''2015-06-01T13:00:00Z'', create_ok = True, header_ok = True, seek_ok = True,
      output_ok = True, getwriter_ok = True, copy_ok = True, line_ok = True\<rparr>]
     \<lparr>comp = id, filePath = ''logs/'', fileSize = 0, fileAge = 300000000000,
      w_file = Some ''logs/2015-06-01T12:00:00Z.txt'', done_flag = 1, sigWriter_closed = True,
      running = False, files = [''logs/2015-06-01T12:00:00Z.txt'' \<mapsto> ''#PBTC Log Version 1''],
      closed = [''logs/2015-06-01T12:00:00Z.txt''], timer_resets = []\<rparr>
   = Inr \<lparr>comp = id, filePath = ''logs/'', fileSize = 0, fileAge = 300000000000,
      w_file = Some ''logs/2015-06-01T12:00:00Z.txt'', done_flag = 1, sigWriter_closed = True,
      running = False, files = [''logs/2015-06-01T12:00:00Z.txt'' \<mapsto> ''#PBTC Log Version 1''],
      closed = [''logs/2015-06-01T12:00:00Z.txt''], timer_resets = []\<rparr>"
proof -
  have first: "Stop []
     \<lparr>comp = id, filePath = ''logs/'', fileSize = 0, fileAge = 300000000000,
      w_file = Some ''logs/2015-06-01T12:00:00Z.txt'', done_flag = 0, sigWriter_closed = False,
      running = True, files = [''logs/2015-06-01T12:00:00Z.txt'' \<mapsto> ''#PBTC Log Version 1''],
      closed = [], timer_resets = []\<rparr>
   = Inr \<lparr>comp = id, filePath = ''logs/'', fileSize = 0, fileAge = 300000000000,
      w_file = Some ''logs/2015-06-01T12:00:00Z.txt'', done_flag = 1, sigWriter_closed = True,
      running = False, files = [''logs/2015-06-01T12:00:00Z.txt'' \<mapsto> ''#PBTC Log Version 1''],
      closed = [''logs/2015-06-01T12:00:00Z.txt''], timer_resets = []\<rparr>"
    by (simp add: Stop_def Let_def goWriter_def)
  from first Stop_idempotent [OF first] show ?thesis by simp
qed

end
